theory Spec2Isabelle
  imports Complex_Main "HOL-Library.Multiset"
begin

section \<open>Python values used by the services\<close>

text \<open>
  Exceptions are values. Each constructor is the Python class of an exception the modelled
  code can raise, carrying the message that \<open>str(e)\<close> returns. \<open>AssertionError\<close> is what
  the FAISS Python wrapper raises from its \<open>assert d == self.d\<close> and \<open>assert k > 0\<close>,
  \<open>ValueError\<close> what numpy raises from \<open>vstack\<close>, what
  \<open>json.load\<close> and \<open>int\<close> raise on malformed text and what \<open>EmbeddingService.embed\<close>
  raises on empty text; \<open>RuntimeError\<close> is what \<open>faiss.read_index\<close> raises on a file it
  cannot read; \<open>APIError\<close> stands for whatever the OpenAI client raises.
\<close>

datatype exn =
    ValueError string
  | AssertionError string
  | ZeroDivisionError string
  | RuntimeError string
  | APIError string

fun exn_str :: "exn \<Rightarrow> string" where
  "exn_str (ValueError m) = m"
| "exn_str (AssertionError m) = m"
| "exn_str (ZeroDivisionError m) = m"
| "exn_str (RuntimeError m) = m"
| "exn_str (APIError m) = m"

text \<open>Python's \<open>str\<close> of an integer: the decimal digits, with a leading minus sign.\<close>

definition digit_char :: "nat \<Rightarrow> char" where
  "digit_char n = ''0123456789'' ! (n mod 10)"

function str_nat :: "nat \<Rightarrow> string" where
  "str_nat n = (if n < 10 then [digit_char n] else str_nat (n div 10) @ [digit_char n])"
  by pat_completeness auto
termination
  by (relation "measure (\<lambda>n. n)") auto

declare str_nat.simps [simp del]

definition str_int :: "int \<Rightarrow> string" where
  "str_int i = (if i < 0 then CHR ''-'' # str_nat (nat (- i)) else str_nat (nat i))"

text \<open>Python's slice \<open>xs[:k]\<close>: a negative \<open>k\<close> counts from the end.\<close>

definition slice_to :: "int \<Rightarrow> 'a list \<Rightarrow> 'a list" where
  "slice_to k xs = (if 0 \<le> k then take (nat k) xs else take (length xs - nat (- k)) xs)"

section \<open>The FAISS flat L2 index (library primitive)\<close>

text \<open>
  \<open>faiss.IndexFlatL2\<close> is the library the repository builds on: a dimension \<open>d\<close> and the
  stored rows in insertion order; \<open>ntotal\<close> is their number. Components are modelled as
  reals (the library stores 32-bit floats; rounding is not modelled). \<open>add\<close> refuses rows
  of another width through the wrapper's assertion. \<open>search\<close> asserts the query width and
  \<open>k > 0\<close>, ranks all rows by squared Euclidean distance and returns exactly \<open>k\<close>
  (distance, label) pairs, padded with label \<open>-1\<close> when fewer rows are stored. Rows at
  equal distance are ranked by insertion order here.
\<close>

record faiss_index =
  d :: nat
  xb :: "real list list"

definition IndexFlatL2 :: "nat \<Rightarrow> faiss_index" where
  "IndexFlatL2 n = \<lparr>d = n, xb = []\<rparr>"

definition ntotal :: "faiss_index \<Rightarrow> nat" where
  "ntotal ix = length (xb ix)"

definition l2sqr :: "real list \<Rightarrow> real list \<Rightarrow> real" where
  "l2sqr q v = sum_list (map (\<lambda>(a, b). (a - b) * (a - b)) (zip q v))"

definition FLT_MAX :: real where
  "FLT_MAX = 340282346638528859811704183484516925440"

definition faiss_add :: "faiss_index \<Rightarrow> real list list \<Rightarrow> exn + faiss_index" where
  "faiss_add ix rows =
     (if \<exists>r \<in> set rows. length r \<noteq> d ix then Inl (AssertionError [])
      else Inr (ix\<lparr>xb := xb ix @ rows\<rparr>))"

definition ranked :: "faiss_index \<Rightarrow> real list \<Rightarrow> (real \<times> int) list" where
  "ranked ix q = sort_key fst (zip (map (l2sqr q) (xb ix)) (map int [0..<ntotal ix]))"

definition faiss_search :: "faiss_index \<Rightarrow> real list \<Rightarrow> int \<Rightarrow> exn + (real \<times> int) list" where
  "faiss_search ix q k =
     (if length q \<noteq> d ix then Inl (AssertionError [])
      else if k \<le> 0 then Inl (AssertionError [])
      else Inr (take (nat k) (ranked ix q) @ replicate (nat k - ntotal ix) (FLT_MAX, - 1)))"

section \<open>FAISSIndex (services/faiss\_index.py)\<close>

text \<open>
  The metadata attached to a vector is a Python dict; the model keeps the keys the code
  reads or writes. A field is \<open>None\<close> when the key is absent (what \<open>dict.get\<close> returns);
  \<open>removed\<close> is true when \<open>delete_candidate\<close> has set the key. The dict
  \<open>self.metadata\<close> maps \<open>str(vector_id)\<close> to such a record and is kept as an association
  list in insertion order. The empty dict \<open>{}\<close> is \<open>no_metadata\<close>.
\<close>

record chunk_metadata =
  candidate_id :: "string option"
  chunk_type :: "string option"
  section_name :: "string option"
  text_content :: "string option"
  removed :: bool

definition no_metadata :: chunk_metadata where
  "no_metadata = \<lparr>candidate_id = None, chunk_type = None, section_name = None,
     text_content = None, removed = False\<rparr>"

record faiss_state =
  index :: faiss_index
  metadata :: "(string \<times> chunk_metadata) list"
  next_id :: int

record search_result =
  vector_id :: int
  distance :: real
  res_metadata :: chunk_metadata

text \<open>\<open>self.metadata[key] = value\<close>: overwrite in place, or append a new key.\<close>

fun dict_set :: "(string \<times> 'v) list \<Rightarrow> string \<Rightarrow> 'v \<Rightarrow> (string \<times> 'v) list" where
  "dict_set [] k v = [(k, v)]"
| "dict_set ((k', v') # m) k v = (if k' = k then (k, v) # m else (k', v') # dict_set m k v)"

definition dict_get :: "(string \<times> chunk_metadata) list \<Rightarrow> string \<Rightarrow> chunk_metadata" where
  "dict_get m k = (case map_of m k of None \<Rightarrow> no_metadata | Some v \<Rightarrow> v)"

text \<open>
  \<open>add_vector\<close>: a one-dimensional embedding is reshaped to one row and handed to
  \<open>index.add\<close>, and only then the metadata is stored under the next id. The exception
  is logged and re-raised; the pair returned is the outcome and the state the object is
  left in.
\<close>

definition add_vector ::
  "faiss_state \<Rightarrow> real list \<Rightarrow> chunk_metadata \<Rightarrow> (exn + int) \<times> faiss_state" where
  "add_vector s embedding md =
     (case faiss_add (index s) [embedding] of
        Inl e \<Rightarrow> (Inl e, s)
      | Inr ix \<Rightarrow>
          (Inr (next_id s),
           s\<lparr>index := ix,
             metadata := dict_set (metadata s) (str_int (next_id s)) md,
             next_id := next_id s + 1\<rparr>))"

text \<open>
  \<open>add_batch\<close>: \<open>np.vstack\<close> needs at least one array and arrays of one common
  length; \<open>index.add\<close> then checks that length against the dimension. Only after both
  have passed is the metadata loop run, once per element of \<open>metadatas\<close>.
\<close>

definition vstack :: "real list list \<Rightarrow> exn + real list list" where
  "vstack embeddings =
     (case embeddings of
        [] \<Rightarrow> Inl (ValueError ''need at least one array to concatenate'')
      | e # es \<Rightarrow>
          if \<exists>r \<in> set es. length r \<noteq> length e
          then Inl (ValueError ''all the input array dimensions except for the concatenation axis must match exactly'')
          else Inr embeddings)"

fun store_metadatas :: "faiss_state \<Rightarrow> chunk_metadata list \<Rightarrow> int list \<times> faiss_state" where
  "store_metadatas s [] = ([], s)"
| "store_metadatas s (md # mds) =
     (let vid = next_id s;
          s' = s\<lparr>metadata := dict_set (metadata s) (str_int vid) md, next_id := next_id s + 1\<rparr>;
          (ids, s'') = store_metadatas s' mds
      in (vid # ids, s''))"

definition add_batch ::
  "faiss_state \<Rightarrow> real list list \<Rightarrow> chunk_metadata list \<Rightarrow> (exn + int list) \<times> faiss_state" where
  "add_batch s embeddings metadatas =
     (case vstack embeddings of
        Inl e \<Rightarrow> (Inl e, s)
      | Inr arr \<Rightarrow>
          (case faiss_add (index s) arr of
             Inl e \<Rightarrow> (Inl e, s)
           | Inr ix \<Rightarrow>
               (let (ids, s') = store_metadatas (s\<lparr>index := ix\<rparr>) metadatas
                in (Inr ids, s'))))"

text \<open>
  \<open>search\<close>. The body of the \<open>try\<close> is \<open>search_with\<close>, written over the \<open>search\<close>
  method of \<open>self.index\<close> (a function of the query and the number of neighbours asked
  for), so that what the body asks of the store can be stated; \<open>search\<close> runs it on the
  FAISS index of the state, and its handler logs the exception and returns the empty
  list. A candidate id filters only when it is truthy (neither \<open>None\<close> nor the
  empty string).
\<close>

definition truthy :: "string option \<Rightarrow> bool" where
  "truthy c = (case c of None \<Rightarrow> False | Some x \<Rightarrow> x \<noteq> [])"

fun collect_results ::
  "faiss_state \<Rightarrow> string option \<Rightarrow> (real \<times> int) list \<Rightarrow> search_result list" where
  "collect_results s cid [] = []"
| "collect_results s cid ((dv, idx) # hits) =
     (if idx = - 1 then collect_results s cid hits
      else
        (let md = dict_get (metadata s) (str_int idx) in
         if truthy cid \<and> candidate_id md \<noteq> cid then collect_results s cid hits
         else \<lparr>vector_id = idx, distance = dv, res_metadata = md\<rparr>
                # collect_results s cid hits))"

definition search_with ::
  "(real list \<Rightarrow> int \<Rightarrow> exn + (real \<times> int) list) \<Rightarrow>
   faiss_state \<Rightarrow> real list \<Rightarrow> int \<Rightarrow> string option \<Rightarrow> exn + search_result list" where
  "search_with index_search s query_vector k cid =
     (if ntotal (index s) = 0 then Inr []
      else
        (case index_search query_vector (min k (int (ntotal (index s)))) of
           Inl e \<Rightarrow> Inl e
         | Inr hits \<Rightarrow> Inr (slice_to k (collect_results s cid hits))))"

definition search ::
  "faiss_state \<Rightarrow> real list \<Rightarrow> int \<Rightarrow> string option \<Rightarrow> search_result list" where
  "search s query_vector k cid =
     (case search_with (faiss_search (index s)) s query_vector k cid of
        Inl e \<Rightarrow> []
      | Inr results \<Rightarrow> results)"

text \<open>
  \<open>delete_candidate\<close> walks the dict and sets \<open>removed\<close> on every entry of the candidate.
  It changes nothing else: the vectors stay in the index and the keys stay in the dict.
\<close>

definition delete_candidate :: "faiss_state \<Rightarrow> string \<Rightarrow> faiss_state" where
  "delete_candidate s cid =
     s\<lparr>metadata :=
         map (\<lambda>(vid, md). if candidate_id md = Some cid then (vid, md\<lparr>removed := True\<rparr>)
                           else (vid, md))
           (metadata s)\<rparr>"

text \<open>
  \<open>_load_or_create_index\<close>, run by the constructor. A file on disk is missing, unreadable
  (\<open>faiss.read_index\<close> or \<open>json.load\<close> raises on it) or holds what \<open>save\<close> wrote.
  \<open>to_int\<close> is Python's \<open>int\<close> on a key of the loaded dict: \<open>None\<close> where it raises.
  The body of the \<open>try\<close> is \<open>load_try\<close>; the handler logs the exception and installs
  a fresh index; nothing is raised to the constructor.
\<close>

datatype 'a disk_file = Missing | Corrupt | Stored 'a

definition fresh_state :: faiss_state where
  "fresh_state = \<lparr>index = IndexFlatL2 1536, metadata = [], next_id = 0\<rparr>"

definition load_try ::
  "(string \<Rightarrow> int option) \<Rightarrow> faiss_index disk_file \<Rightarrow>
   (string \<times> chunk_metadata) list disk_file \<Rightarrow> exn + faiss_state" where
  "load_try to_int index_file metadata_file =
     (case (case index_file of
              Missing \<Rightarrow> Inr (IndexFlatL2 1536)
            | Corrupt \<Rightarrow> Inl (RuntimeError ''Error in faiss::read_index'')
            | Stored ix \<Rightarrow> Inr ix) of
        Inl e \<Rightarrow> Inl e
      | Inr ix \<Rightarrow>
          (case metadata_file of
             Missing \<Rightarrow> Inr \<lparr>index = ix, metadata = [], next_id = 0\<rparr>
           | Corrupt \<Rightarrow> Inl (ValueError ''Expecting value'')
           | Stored m \<Rightarrow>
               if m = [] then Inr \<lparr>index = ix, metadata = m, next_id = 0\<rparr>
               else if \<exists>key \<in> set (map fst m). to_int key = None
               then Inl (ValueError ''invalid literal for int() with base 10'')
               else Inr \<lparr>index = ix, metadata = m,
                          next_id = Max (set (map (\<lambda>key. the (to_int key)) (map fst m))) + 1\<rparr>))"

definition load_or_create_index ::
  "(string \<Rightarrow> int option) \<Rightarrow> faiss_index disk_file \<Rightarrow>
   (string \<times> chunk_metadata) list disk_file \<Rightarrow> faiss_state" where
  "load_or_create_index to_int index_file metadata_file =
     (case load_try to_int index_file metadata_file of
        Inl e \<Rightarrow> fresh_state
      | Inr s \<Rightarrow> s)"

section \<open>EmbeddingService and QueryAgent (services/embedding.py, services/query\_agent.py)\<close>

text \<open>
  The collaborators of the query agent are parameters: the two OpenAI calls (the
  embeddings endpoint, and the chat endpoint as a function of the prompt to the message
  content), the candidate lookup of the SQLite repository with the \<open>name\<close> of a row,
  \<open>_reconstruct_chunk_text\<close> (used only when a chunk carries no stored text; it returns a
  string or \<open>None\<close>, or raises from \<open>int\<close>), and Python's \<open>:.2f\<close> float format.
\<close>

record 'c services =
  embeddings_create :: "string \<Rightarrow> exn + real list"
  chat_completions_create :: "string \<Rightarrow> exn + string"
  get_candidate :: "string option \<Rightarrow> 'c option"
  candidate_name :: "'c \<Rightarrow> string option"
  reconstruct_chunk_text :: "'c \<Rightarrow> string \<Rightarrow> string \<Rightarrow> exn + string option"
  format_2f :: "real \<Rightarrow> string"

text \<open>String helpers: \<open>str.strip\<close>, \<open>str.upper\<close> and \<open>str.join\<close> on ASCII text.\<close>

definition is_space :: "char \<Rightarrow> bool" where
  "is_space c = (of_char c \<in> set [9, 10, 11, 12, 13, 28, 29, 30, 31, 32 :: nat])"

definition strip :: "string \<Rightarrow> string" where
  "strip t = rev (dropWhile is_space (rev (dropWhile is_space t)))"

definition upper_char :: "char \<Rightarrow> char" where
  "upper_char c =
     (let n = (of_char c :: nat) in if 97 \<le> n \<and> n \<le> 122 then char_of (n - 32) else c)"

definition upper :: "string \<Rightarrow> string" where
  "upper t = map upper_char t"

fun join :: "string \<Rightarrow> string list \<Rightarrow> string" where
  "join sep [] = []"
| "join sep [p] = p"
| "join sep (p # q # ps) = p @ sep @ join sep (q # ps)"

definition NL :: string where
  "NL = [CHR 0x0A]"

definition str_opt :: "string option \<Rightarrow> string" where
  "str_opt v = (case v of None \<Rightarrow> ''None'' | Some t \<Rightarrow> t)"

text \<open>\<open>EmbeddingService.embed\<close>: empty or blank text is refused; an API error is re-raised.\<close>

definition embed :: "'c services \<Rightarrow> string \<Rightarrow> exn + real list" where
  "embed svc t =
     (if t = [] \<or> strip t = [] then Inl (ValueError ''Text cannot be empty'')
      else embeddings_create svc t)"

record source_entry =
  src_candidate_name :: "string option"
  src_candidate_id :: "string option"
  src_section :: "string option"
  src_chunk_type :: "string option"
  relevance :: real

text \<open>
  The value under \<open>'context'\<close> is the empty list in the two early returns and the
  formatted string otherwise.
\<close>

datatype context_value = EmptyList | ContextText string

record answer_payload =
  answer :: string
  context_of :: context_value
  sources :: "source_entry list"
  confidence :: string

text \<open>
  \<open>_format_context\<close>: one labelled excerpt for each result whose candidate resolves and
  whose text is not empty, joined by a rule. The loop stops at the first exception.
\<close>

fun format_parts :: "'c services \<Rightarrow> search_result list \<Rightarrow> exn + string list" where
  "format_parts svc [] = Inr []"
| "format_parts svc (r # rs) =
     (let md = res_metadata r in
      case get_candidate svc (candidate_id md) of
        None \<Rightarrow> format_parts svc rs
      | Some cand \<Rightarrow>
          (let ctype = (case chunk_type md of None \<Rightarrow> ''unknown'' | Some t \<Rightarrow> t);
               sect = (case section_name md of None \<Rightarrow> ''unknown'' | Some t \<Rightarrow> t)
           in case (if truthy (text_content md) then Inr (text_content md)
                    else reconstruct_chunk_text svc cand ctype sect) of
                Inl e \<Rightarrow> Inl e
              | Inr txt \<Rightarrow>
                  if \<not> truthy txt then format_parts svc rs
                  else if 1 + distance r = 0
                  then Inl (ZeroDivisionError ''float division by zero'')
                  else
                    (case format_parts svc rs of
                       Inl e \<Rightarrow> Inl e
                     | Inr parts \<Rightarrow>
                         Inr ((''['' @ str_opt (candidate_name svc cand) @ '' - '' @ upper ctype
                               @ '' ('' @ sect @ '')]'' @ NL @ the txt @ NL
                               @ ''(Relevance Score: ''
                               @ format_2f svc (1 / (1 + distance r)) @ '')'') # parts))))"

definition format_context :: "'c services \<Rightarrow> search_result list \<Rightarrow> exn + string" where
  "format_context svc results =
     (case format_parts svc results of
        Inl e \<Rightarrow> Inl e
      | Inr parts \<Rightarrow> Inr (join (NL @ NL @ ''---'' @ NL @ NL) parts))"

text \<open>\<open>_extract_sources\<close>: one entry for each result whose candidate resolves.\<close>

fun extract_sources :: "'c services \<Rightarrow> search_result list \<Rightarrow> exn + source_entry list" where
  "extract_sources svc [] = Inr []"
| "extract_sources svc (r # rs) =
     (let md = res_metadata r in
      case get_candidate svc (candidate_id md) of
        None \<Rightarrow> extract_sources svc rs
      | Some cand \<Rightarrow>
          if 1 + distance r = 0 then Inl (ZeroDivisionError ''float division by zero'')
          else
            (case extract_sources svc rs of
               Inl e \<Rightarrow> Inl e
             | Inr srcs \<Rightarrow>
                 Inr (\<lparr>src_candidate_name = candidate_name svc cand,
                       src_candidate_id = candidate_id md,
                       src_section = section_name md,
                       src_chunk_type = chunk_type md,
                       relevance = 1 / (1 + distance r)\<rparr> # srcs)))"

text \<open>
  \<open>_generate_answer\<close> builds the prompt and calls the chat endpoint inside its own
  \<open>try\<close>: on an exception it returns the fixed message instead of raising.
\<close>

definition build_prompt :: "string \<Rightarrow> string \<Rightarrow> string" where
  "build_prompt question ctx =
     ''Based on the following CV context, answer the user's question comprehensively.'' @ NL
     @ ''You have been provided with the most relevant sections from the CV.'' @ NL
     @ ''- Answer as completely as possible using all the provided context'' @ NL
     @ ''- If the question asks for a list, provide the complete list from the context'' @ NL
     @ ''- Reference specific details like dates, companies, technologies mentioned'' @ NL
     @ ''- If certain information isn't in the context, clearly state that'' @ NL
     @ ''- Be thorough and don't omit relevant details'' @ NL @ NL
     @ ''CONTEXT:'' @ NL @ ctx @ NL @ NL
     @ ''QUESTION:'' @ NL @ question @ NL @ NL
     @ ''ANSWER:''"

definition generate_answer :: "'c services \<Rightarrow> string \<Rightarrow> string \<Rightarrow> string" where
  "generate_answer svc question ctx =
     (case chat_completions_create svc (build_prompt question ctx) of
        Inl e \<Rightarrow> ''Unable to generate answer due to an error.''
      | Inr content \<Rightarrow> strip content)"

text \<open>\<open>_evaluate_confidence\<close>: thresholds on \<open>np.mean\<close> of the distances.\<close>

definition mean_distance :: "search_result list \<Rightarrow> real" where
  "mean_distance results = sum_list (map distance results) / real (length results)"

definition evaluate_confidence :: "search_result list \<Rightarrow> string" where
  "evaluate_confidence results =
     (if results = [] then ''low''
      else if mean_distance results < 1 then ''high''
      else if mean_distance results < 2 then ''medium''
      else ''low'')"

text \<open>
  \<open>answer_question\<close>. \<open>retrieve\<close> is its step 2 (the search with
  \<open>search_k = max(top_k, 15)\<close> and the unfiltered retry), \<open>answer_question_try\<close> the body of
  its \<open>try\<close>; the handler turns every exception into the error payload.
\<close>

definition retrieve ::
  "faiss_state \<Rightarrow> real list \<Rightarrow> int \<Rightarrow> string option \<Rightarrow> search_result list" where
  "retrieve s question_embedding top_k cid =
     (let search_k = max top_k 15;
          search_results = search s question_embedding search_k cid
      in if search_results = [] \<and> truthy cid
         then search s question_embedding search_k None
         else search_results)"

definition no_information :: answer_payload where
  "no_information =
     \<lparr>answer = ''No relevant information found in the CV database.'',
      context_of = EmptyList, sources = [], confidence = ''low''\<rparr>"

definition answer_question_try ::
  "'c services \<Rightarrow> faiss_state \<Rightarrow> string \<Rightarrow> string option \<Rightarrow> int \<Rightarrow> exn + answer_payload" where
  "answer_question_try svc s question cid top_k =
     (case embed svc question of
        Inl e \<Rightarrow> Inl e
      | Inr question_embedding \<Rightarrow>
          (let search_results = retrieve s question_embedding top_k cid in
           if search_results = [] then Inr no_information
           else
             (case format_context svc (slice_to top_k search_results) of
                Inl e \<Rightarrow> Inl e
              | Inr context_text \<Rightarrow>
                  (case extract_sources svc (slice_to top_k search_results) of
                     Inl e \<Rightarrow> Inl e
                   | Inr srcs \<Rightarrow>
                       Inr \<lparr>answer = generate_answer svc question context_text,
                            context_of = ContextText context_text,
                            sources = srcs,
                            confidence =
                              evaluate_confidence (slice_to top_k search_results)\<rparr>))))"

definition answer_question ::
  "'c services \<Rightarrow> faiss_state \<Rightarrow> string \<Rightarrow> string option \<Rightarrow> int \<Rightarrow> answer_payload" where
  "answer_question svc s question cid top_k =
     (case answer_question_try svc s question cid top_k of
        Inl e \<Rightarrow>
          \<lparr>answer = ''Error processing question: '' @ exn_str e,
           context_of = EmptyList, sources = [], confidence = ''error''\<rparr>
      | Inr payload \<Rightarrow> payload)"

section \<open>Notions the claims are stated with\<close>

text \<open>
  The record \<open>search\<close> builds for a hit; the records a candidate id selects (every
  stored record when the id is not truthy) and their number among the stored positions
  \<open>0 .. ntotal - 1\<close>; and the states in which no entry carries the \<open>removed\<close> mark.
\<close>

definition result_of :: "faiss_state \<Rightarrow> real \<times> int \<Rightarrow> search_result" where
  "result_of s h =
     \<lparr>vector_id = snd h, distance = fst h,
      res_metadata = dict_get (metadata s) (str_int (snd h))\<rparr>"

definition matches :: "faiss_state \<Rightarrow> string option \<Rightarrow> int \<Rightarrow> bool" where
  "matches s cid idx =
     (if truthy cid then candidate_id (dict_get (metadata s) (str_int idx)) = cid else True)"

definition matching_count :: "faiss_state \<Rightarrow> string option \<Rightarrow> nat" where
  "matching_count s cid = length (filter (matches s cid) (map int [0..<ntotal (index s)]))"

definition no_tombstones :: "faiss_state \<Rightarrow> bool" where
  "no_tombstones s = list_all (\<lambda>entry. \<not> removed (snd entry)) (metadata s)"

section \<open>Concrete inputs\<close>

text \<open>Small index states and collaborators on which the theorems below are evaluated.\<close>

definition sample_metadata :: "string \<Rightarrow> chunk_metadata" where
  "sample_metadata c =
     \<lparr>candidate_id = Some c, chunk_type = Some ''summary'', section_name = Some ''summary'',
      text_content = Some ''Python developer'', removed = False\<rparr>"

definition empty_state_2d :: faiss_state where
  "empty_state_2d = \<lparr>index = IndexFlatL2 2, metadata = [], next_id = 0\<rparr>"

text \<open>
  Two vectors of dimension one added in a batch: \<open>[0]\<close> for candidate A under id 0 and
  \<open>[1]\<close> for candidate B under id 1.
\<close>

definition two_candidates :: faiss_state where
  "two_candidates =
     snd (add_batch \<lparr>index = IndexFlatL2 1, metadata = [], next_id = 0\<rparr>
            [[0], [1]] [sample_metadata ''A'', sample_metadata ''B''])"

text \<open>A search result at a given distance, and \<open>int\<close> on the keys \<open>"0"\<close> and \<open>"1"\<close>.\<close>

definition near_result :: "real \<Rightarrow> search_result" where
  "near_result x = \<lparr>vector_id = 0, distance = x, res_metadata = sample_metadata ''A''\<rparr>"

definition decimal_key :: "string \<Rightarrow> int option" where
  "decimal_key = map_of [(''0'', 0), (''1'', 1)]"

text \<open>
  Collaborators over a repository that knows candidates A (Alice) and B (Bob): every
  text embeds to \<open>[0]\<close> and the chat endpoint answers; then the same with a chat
  endpoint that raises, and with an embeddings endpoint that raises. The context and the
  source that \<open>two_candidates\<close> yields for its nearest record follow.
\<close>

definition sample_services :: "string services" where
  "sample_services =
     \<lparr>embeddings_create = (\<lambda>t. Inr [0]),
      chat_completions_create = (\<lambda>prompt. Inr '' Alice is a Python developer. ''),
      get_candidate = (\<lambda>c. if c = Some ''A'' then Some ''Alice''
                            else if c = Some ''B'' then Some ''Bob'' else None),
      candidate_name = Some,
      reconstruct_chunk_text = (\<lambda>cand ctype sect. Inr None),
      format_2f = (\<lambda>x. if x = 1 then ''1.00'' else ''0.50'')\<rparr>"

definition failing_generation :: "string services" where
  "failing_generation =
     sample_services\<lparr>chat_completions_create := (\<lambda>prompt. Inl (APIError ''Connection error.''))\<rparr>"

definition failing_embedding :: "string services" where
  "failing_embedding =
     sample_services\<lparr>embeddings_create := (\<lambda>t. Inl (APIError ''Connection error.''))\<rparr>"

definition alice_context :: string where
  "alice_context =
     ''[Alice - SUMMARY (summary)]'' @ NL @ ''Python developer'' @ NL @ ''(Relevance Score: 1.00)''"

definition alice_source :: source_entry where
  "alice_source =
     \<lparr>src_candidate_name = Some ''Alice'', src_candidate_id = Some ''A'',
      src_section = Some ''summary'', src_chunk_type = Some ''summary'', relevance = 1\<rparr>"

text \<open>
  Bob's source entry and the context of both records; and a store that answers as FAISS
  when asked for at most \<open>ntotal\<close> neighbours and raises when asked for more.
\<close>

definition bob_source :: source_entry where
  "bob_source =
     \<lparr>src_candidate_name = Some ''Bob'', src_candidate_id = Some ''B'',
      src_section = Some ''summary'', src_chunk_type = Some ''summary'', relevance = 1 / 2\<rparr>"

definition both_context :: string where
  "both_context =
     alice_context @ NL @ NL @ ''---'' @ NL @ NL
     @ ''[Bob - SUMMARY (summary)]'' @ NL @ ''Python developer'' @ NL
     @ ''(Relevance Score: 0.50)''"

definition bounded_store ::
  "faiss_index \<Rightarrow> real list \<Rightarrow> int \<Rightarrow> exn + (real \<times> int) list" where
  "bounded_store ix q k =
     (if int (ntotal ix) < k then Inl (RuntimeError ''more neighbours asked than stored'')
      else faiss_search ix q k)"

section \<open>Adding vectors\<close>

lemma map_of_dict_set: "map_of (dict_set m k v) k = Some v"
  by (induction m) auto

lemma dict_get_dict_set: "dict_get (dict_set m k v) k = v"
  by (simp add: dict_get_def map_of_dict_set)

text \<open>
  Claim C5. An embedding whose length is not the index dimension makes \<open>add_vector\<close>
  raise (the wrapper's assertion) and leaves the object as it was: no row, no metadata
  entry, the same next id. An embedding of the right length gets the next id, is appended
  as the last row with its metadata stored under that id, the counter moves on by one,
  and the id is returned.
\<close>

theorem add_vector_contract:
  "(length embedding \<noteq> d (index s) \<longrightarrow>
      add_vector s embedding md = (Inl (AssertionError []), s))
   \<and> (length embedding = d (index s) \<longrightarrow>
      add_vector s embedding md =
        (Inr (next_id s),
         s\<lparr>index := (index s)\<lparr>xb := xb (index s) @ [embedding]\<rparr>,
           metadata := dict_set (metadata s) (str_int (next_id s)) md,
           next_id := next_id s + 1\<rparr>)
      \<and> dict_get (metadata (snd (add_vector s embedding md))) (str_int (next_id s)) = md
      \<and> ntotal (index (snd (add_vector s embedding md))) = ntotal (index s) + 1)"
  by (auto simp: add_vector_def faiss_add_def dict_get_dict_set ntotal_def)

theorem add_vector_contract_witness:
  "add_vector empty_state_2d [1, 2, 3] (sample_metadata ''A'')
     = (Inl (AssertionError []), empty_state_2d)
   \<and> add_vector empty_state_2d [1, 2] (sample_metadata ''A'')
     = (Inr 0, \<lparr>index = \<lparr>d = 2, xb = [[1, 2]]\<rparr>,
                 metadata = [(''0'', sample_metadata ''A'')], next_id = 1\<rparr>)"
  using add_vector_contract [of "[1, 2, 3]" empty_state_2d "sample_metadata ''A''"]
    add_vector_contract [of "[1, 2]" empty_state_2d "sample_metadata ''A''"]
  by (simp add: empty_state_2d_def IndexFlatL2_def str_int_def str_nat.simps digit_char_def)

text \<open>
  Claim C4. When some embedding of a batch has a length other than the index dimension,
  \<open>add_batch\<close> raises (from \<open>np.vstack\<close> when the lengths differ among themselves, from
  the wrapper's assertion otherwise) before anything is stored: the object is left
  exactly as it was, rows, metadata and next id.
\<close>

theorem add_batch_all_or_nothing:
  assumes "\<exists>e \<in> set embeddings. length e \<noteq> d (index s)"
  shows "\<exists>err. add_batch s embeddings metadatas = (Inl err, s)"
proof (cases "vstack embeddings")
  case (Inl e)
  then show ?thesis by (simp add: add_batch_def)
next
  case (Inr arr)
  then have "arr = embeddings"
    by (auto simp: vstack_def split: list.splits if_splits)
  with assms have "faiss_add (index s) arr = Inl (AssertionError [])"
    by (simp add: faiss_add_def)
  with Inr show ?thesis by (simp add: add_batch_def)
qed

theorem add_batch_all_or_nothing_witness:
  "add_batch empty_state_2d [[0, 0], [1, 0], [0, 1], [1, 1, 1], [2, 0], [0, 2]]
     (replicate 6 (sample_metadata ''A''))
   = (Inl (ValueError ''all the input array dimensions except for the concatenation axis must match exactly''),
      empty_state_2d)"
  using add_batch_all_or_nothing [of "[[0, 0], [1, 0], [0, 1], [1, 1, 1], [2, 0], [0, 2]]"
      empty_state_2d "replicate 6 (sample_metadata ''A'')"]
  by (simp add: add_batch_def vstack_def empty_state_2d_def IndexFlatL2_def)

section \<open>Searching\<close>

lemma length_ranked: "length (ranked ix q) = ntotal ix"
  by (simp add: ranked_def ntotal_def)

lemma ids_ranked: "mset (map snd (ranked ix q)) = mset (map int [0..<ntotal ix])"
proof -
  have "mset (ranked ix q) = mset (zip (map (l2sqr q) (xb ix)) (map int [0..<ntotal ix]))"
    by (simp add: ranked_def)
  then have "mset (map snd (ranked ix q))
      = mset (map snd (zip (map (l2sqr q) (xb ix)) (map int [0..<ntotal ix])))"
    by (metis mset_map)
  then show ?thesis by (simp add: ntotal_def)
qed

lemma collect_results_filter:
  "collect_results s cid hits =
     map (result_of s) (filter (\<lambda>h. snd h \<noteq> - 1 \<and> matches s cid (snd h)) hits)"
  by (induction hits) (auto simp: result_of_def matches_def Let_def)

lemma length_collect_results: "length (collect_results s cid hits) \<le> length hits"
  by (simp add: collect_results_filter)

lemma slice_to_short: "int (length xs) \<le> k \<Longrightarrow> slice_to k xs = xs"
  by (simp add: slice_to_def)

lemma faiss_search_clamped:
  assumes "length q = d ix" "0 < k"
  shows "faiss_search ix q (min k (int (ntotal ix))) =
           (if ntotal ix = 0 then Inl (AssertionError []) else Inr (take (nat k) (ranked ix q)))"
proof (cases "ntotal ix = 0")
  case True
  with assms show ?thesis by (simp add: faiss_search_def)
next
  case False
  have "take (nat (min k (int (ntotal ix)))) (ranked ix q) = take (nat k) (ranked ix q)"
  proof (cases "k \<le> int (ntotal ix)")
    case True
    then show ?thesis by (simp add: min_def)
  next
    case False
    then show ?thesis by (simp add: min_def length_ranked)
  qed
  moreover have "nat (min k (int (ntotal ix))) - ntotal ix = 0"
    by (auto simp: min_def)
  ultimately show ?thesis using assms False
    by (simp add: faiss_search_def)
qed

lemma search_body_ranked:
  assumes "ntotal (index s) \<noteq> 0" "length q = d (index s)" "0 < k"
  shows "search_with (faiss_search (index s)) s q k cid = Inr (collect_results s cid (take (nat k) (ranked (index s) q)))"
proof -
  have "length (collect_results s cid (take (nat k) (ranked (index s) q))) \<le> nat k"
    using length_collect_results [of s cid "take (nat k) (ranked (index s) q)"] by simp
  then have "slice_to k (collect_results s cid (take (nat k) (ranked (index s) q)))
      = collect_results s cid (take (nat k) (ranked (index s) q))"
    using assms(3) by (intro slice_to_short) linarith
  with assms show ?thesis
    by (simp add: search_with_def faiss_search_clamped)
qed

lemma search_body_raises:
  assumes "ntotal (index s) \<noteq> 0" "length q \<noteq> d (index s) \<or> k \<le> 0"
  shows "\<exists>e. search_with (faiss_search (index s)) s q k cid = Inl e"
  using assms by (auto simp: search_with_def faiss_search_def)

lemma ranked_ids_nonneg: "h \<in> set (ranked ix q) \<Longrightarrow> snd h \<noteq> - 1"
proof -
  assume "h \<in> set (ranked ix q)"
  then have "snd h \<in> set (map snd (ranked ix q))" by simp
  also have "set (map snd (ranked ix q)) = set (map int [0..<ntotal ix])"
    using ids_ranked [of ix q] by (rule mset_eq_setD)
  finally show ?thesis by auto
qed

lemma collect_results_ranked:
  "collect_results s cid (take n (ranked (index s) q)) =
     map (result_of s) (filter (\<lambda>h. matches s cid (snd h)) (take n (ranked (index s) q)))"
proof -
  have "filter (\<lambda>h. snd h \<noteq> - 1 \<and> matches s cid (snd h)) (take n (ranked (index s) q))
      = filter (\<lambda>h. matches s cid (snd h)) (take n (ranked (index s) q))"
    by (rule filter_cong) (auto dest: in_set_takeD ranked_ids_nonneg)
  then show ?thesis by (simp add: collect_results_filter)
qed

lemma length_filter_take: "length (filter P (take n xs)) \<le> length (filter P xs)"
proof -
  have "length (filter P xs) = length (filter P (take n xs @ drop n xs))" by simp
  also have "\<dots> = length (filter P (take n xs)) + length (filter P (drop n xs))"
    by (simp only: filter_append length_append)
  finally show ?thesis by simp
qed

lemma matching_ranked:
  "length (filter (\<lambda>h. matches s cid (snd h)) (ranked (index s) q)) = matching_count s cid"
proof -
  have "length (filter (\<lambda>h. matches s cid (snd h)) (ranked (index s) q))
      = length (filter (matches s cid) (map snd (ranked (index s) q)))"
    by (simp add: filter_map comp_def)
  also have "\<dots> = size (filter_mset (matches s cid) (mset (map snd (ranked (index s) q))))"
    by (simp only: mset_filter [symmetric] size_mset)
  also have "\<dots> = size (filter_mset (matches s cid) (mset (map int [0..<ntotal (index s)])))"
    by (simp only: ids_ranked)
  also have "\<dots> = matching_count s cid"
    by (simp only: mset_filter [symmetric] size_mset matching_count_def)
  finally show ?thesis .
qed

lemma search_ranked:
  "search s q k cid =
     (if ntotal (index s) = 0 \<or> length q \<noteq> d (index s) \<or> k \<le> 0 then []
      else map (result_of s)
             (filter (\<lambda>h. matches s cid (snd h)) (take (nat k) (ranked (index s) q))))"
proof (cases "ntotal (index s) = 0")
  case True
  then show ?thesis by (simp add: search_def search_with_def)
next
  case False
  show ?thesis
  proof (cases "length q \<noteq> d (index s) \<or> k \<le> 0")
    case True
    with False obtain e where "search_with (faiss_search (index s)) s q k cid = Inl e"
      using search_body_raises by blast
    with True show ?thesis by (auto simp: search_def)
  next
    case ok: False
    with False have "search_with (faiss_search (index s)) s q k cid
        = Inr (collect_results s cid (take (nat k) (ranked (index s) q)))"
      by (intro search_body_ranked) auto
    with False ok show ?thesis
      by (simp add: search_def collect_results_ranked)
  qed
qed

text \<open>
  Claim C1, as the code has it. \<open>search\<close> ranks first and filters afterwards: in a state
  without tombstones its results are, in rank order, those of the \<open>min(k, ntotal)\<close>
  nearest stored vectors that the candidate id selects (and nothing when the index is
  empty, the query has the wrong length or \<open>k\<close> is not positive). So it returns at most
  \<open>min(k, m)\<close> results, \<open>m\<close> being the number of stored records the id selects, and
  exactly \<open>min(k, ntotal)\<close> when no candidate id is given.
\<close>

theorem search_rank_then_filter:
  assumes "no_tombstones s"
  shows "search s q k cid =
           (if ntotal (index s) = 0 \<or> length q \<noteq> d (index s) \<or> k \<le> 0 then []
            else map (result_of s)
                   (filter (\<lambda>h. matches s cid (snd h)) (take (nat k) (ranked (index s) q))))
         \<and> length (search s q k cid) \<le> min (nat k) (matching_count s cid)
         \<and> (\<not> truthy cid \<and> length q = d (index s) \<and> 0 < k \<longrightarrow>
              length (search s q k cid) = min (nat k) (ntotal (index s)))"
proof (intro conjI impI)
  show "search s q k cid =
           (if ntotal (index s) = 0 \<or> length q \<noteq> d (index s) \<or> k \<le> 0 then []
            else map (result_of s)
                   (filter (\<lambda>h. matches s cid (snd h)) (take (nat k) (ranked (index s) q))))"
    by (rule search_ranked)
next
  let ?P = "\<lambda>h. matches s cid (snd h)"
  have "length (filter ?P (take (nat k) (ranked (index s) q))) \<le> nat k"
    using length_filter_le [of ?P "take (nat k) (ranked (index s) q)"] by simp
  moreover have "length (filter ?P (take (nat k) (ranked (index s) q))) \<le> matching_count s cid"
    using length_filter_take [of ?P "nat k" "ranked (index s) q"]
    by (simp only: matching_ranked)
  ultimately show "length (search s q k cid) \<le> min (nat k) (matching_count s cid)"
    by (simp add: search_ranked)
next
  assume a: "\<not> truthy cid \<and> length q = d (index s) \<and> 0 < k"
  then have "filter (\<lambda>h. matches s cid (snd h)) (take (nat k) (ranked (index s) q))
      = take (nat k) (ranked (index s) q)"
    by (simp add: matches_def)
  with a show "length (search s q k cid) = min (nat k) (ntotal (index s))"
    by (auto simp: search_ranked length_ranked min.commute)
qed

theorem search_rank_then_filter_witness:
  "no_tombstones two_candidates
   \<and> search two_candidates [0] 2 (Some ''B'')
       = [\<lparr>vector_id = 1, distance = 1, res_metadata = sample_metadata ''B''\<rparr>]
   \<and> length (search two_candidates [0] 2 (Some ''B''))
       \<le> min (nat 2) (matching_count two_candidates (Some ''B''))
   \<and> length (search two_candidates [0] 5 None) = min (nat 5) (ntotal (index two_candidates))"
proof -
  have nt: "no_tombstones two_candidates" by code_simp
  have ev: "search two_candidates [0] 2 (Some ''B'')
       = [\<lparr>vector_id = 1, distance = 1, res_metadata = sample_metadata ''B''\<rparr>]"
    by code_simp
  have pre: "\<not> truthy None \<and> length [0::real] = d (index two_candidates) \<and> (0::int) < 5"
    by code_simp
  from search_rank_then_filter [OF nt, of "[0]" 2 "Some ''B''"]
  have le: "length (search two_candidates [0] 2 (Some ''B''))
       \<le> min (nat 2) (matching_count two_candidates (Some ''B''))"
    by blast
  from search_rank_then_filter [OF nt, of "[0]" 5 None] pre
  have "length (search two_candidates [0] 5 None) = min (nat 5) (ntotal (index two_candidates))"
    by blast
  with nt ev le show ?thesis by blast
qed

text \<open>
  The count \<open>min(k, m)\<close> of claim C1 is not reached when a nearer record of another
  candidate takes the only requested place: with A at distance 0 and B at distance 1,
  \<open>k = 1\<close> and the filter on B, one record matches and none is returned.
\<close>

theorem search_count_counterexample:
  "no_tombstones two_candidates
   \<and> matching_count two_candidates (Some ''B'') = 1
   \<and> search two_candidates [0] 1 (Some ''B'') = []
   \<and> length (search two_candidates [0] 1 (Some ''B''))
       \<noteq> min (nat 1) (matching_count two_candidates (Some ''B''))"
  by code_simp

text \<open>
  Claim C2 at a concrete input. After \<open>delete_candidate\<close> for candidate A, whose only
  effect is the \<open>removed\<close> mark, \<open>search\<close> still returns A's record, with or without
  the filter on A: it never reads the mark.
\<close>

theorem search_returns_tombstoned:
  "search (delete_candidate two_candidates ''A'') [0] 1 None
     = [\<lparr>vector_id = 0, distance = 0,
         res_metadata = (sample_metadata ''A'')\<lparr>removed := True\<rparr>\<rparr>]
   \<and> search (delete_candidate two_candidates ''A'') [0] 5 (Some ''A'')
     = [\<lparr>vector_id = 0, distance = 0,
         res_metadata = (sample_metadata ''A'')\<lparr>removed := True\<rparr>\<rparr>]"
  by code_simp


lemma search_with_agrees:
  assumes "\<forall>q' k'. k' \<le> int (ntotal (index s)) \<longrightarrow> index_search q' k' = faiss_search (index s) q' k'"
  shows "search_with index_search s q k cid = search_with (faiss_search (index s)) s q k cid"
proof -
  have "min k (int (ntotal (index s))) \<le> int (ntotal (index s))" by simp
  with assms have "index_search q (min k (int (ntotal (index s))))
      = faiss_search (index s) q (min k (int (ntotal (index s))))"
    by blast
  then show ?thesis by (simp add: search_with_def)
qed

lemma length_search_unfiltered:
  assumes "\<not> truthy cid" "length q = d (index s)" "0 < k"
  shows "length (search s q k cid) = min (nat k) (ntotal (index s))"
proof -
  from assms(1) have "filter (\<lambda>h. matches s cid (snd h)) (take (nat k) (ranked (index s) q))
      = take (nat k) (ranked (index s) q)"
    by (simp add: matches_def)
  with assms show ?thesis
    by (auto simp: search_ranked length_ranked min.commute)
qed

text \<open>
  Claim C10. On an index holding no vector the body of \<open>search\<close> returns the empty list
  without asking the store anything, whatever the store would do, and \<open>search\<close> returns
  the empty list. On a non-empty index the one request the body makes of the store is for
  \<open>min(k, ntotal)\<close> neighbours, for every store: so a store that behaves as FAISS only
  up to \<open>ntotal\<close> neighbours, and raises beyond, gives the same outcome as FAISS. With
  FAISS itself, a query of the index dimension and a positive \<open>k\<close>, the request is
  answered with exactly \<open>min(k, ntotal)\<close> ranked hits and no padding, the body does not
  raise however large \<open>k\<close> is and returns the records collected from those hits, at most
  \<open>min(k, ntotal)\<close> of them and exactly that many when no candidate id is given.
\<close>

theorem search_clamps_k:
  "(ntotal (index s) = 0 \<longrightarrow>
      search_with index_search s q k cid = Inr []
      \<and> search_with (faiss_search (index s)) s q k cid = Inr [] \<and> search s q k cid = [])
   \<and> (ntotal (index s) \<noteq> 0 \<longrightarrow>
      search_with index_search s q k cid =
        (case index_search q (min k (int (ntotal (index s)))) of
           Inl e \<Rightarrow> Inl e
         | Inr hits \<Rightarrow> Inr (slice_to k (collect_results s cid hits))))
   \<and> ((\<forall>q' k'. k' \<le> int (ntotal (index s)) \<longrightarrow>
          index_search q' k' = faiss_search (index s) q' k') \<longrightarrow>
      search_with index_search s q k cid = search_with (faiss_search (index s)) s q k cid)
   \<and> (ntotal (index s) \<noteq> 0 \<and> length q = d (index s) \<and> 0 < k \<longrightarrow>
        faiss_search (index s) q (min k (int (ntotal (index s))))
          = Inr (take (nat k) (ranked (index s) q))
        \<and> length (take (nat k) (ranked (index s) q)) = min (nat k) (ntotal (index s))
        \<and> search_with (faiss_search (index s)) s q k cid
            = Inr (collect_results s cid (take (nat k) (ranked (index s) q)))
        \<and> search_with (faiss_search (index s)) s q k cid = Inr (search s q k cid)
        \<and> length (search s q k cid) \<le> min (nat k) (ntotal (index s))
        \<and> (\<not> truthy cid \<longrightarrow>
             length (search s q k cid) = min (nat k) (ntotal (index s))))"
proof (intro conjI impI)
  assume z: "ntotal (index s) = 0"
  then show "search_with index_search s q k cid = Inr []" by (simp add: search_with_def)
  from z show "search_with (faiss_search (index s)) s q k cid = Inr []" by (simp add: search_with_def)
  then show "search s q k cid = []" by (simp add: search_def)
next
  assume "ntotal (index s) \<noteq> 0"
  then show "search_with index_search s q k cid =
        (case index_search q (min k (int (ntotal (index s)))) of
           Inl e \<Rightarrow> Inl e
         | Inr hits \<Rightarrow> Inr (slice_to k (collect_results s cid hits)))"
    by (simp add: search_with_def)
next
  assume "\<forall>q' k'. k' \<le> int (ntotal (index s)) \<longrightarrow>
          index_search q' k' = faiss_search (index s) q' k'"
  then show "search_with index_search s q k cid = search_with (faiss_search (index s)) s q k cid"
    by (rule search_with_agrees)
next
  assume a: "ntotal (index s) \<noteq> 0 \<and> length q = d (index s) \<and> 0 < k"
  then show "faiss_search (index s) q (min k (int (ntotal (index s))))
          = Inr (take (nat k) (ranked (index s) q))"
    by (simp add: faiss_search_clamped)
  show "length (take (nat k) (ranked (index s) q)) = min (nat k) (ntotal (index s))"
    by (simp add: length_ranked min.commute)
  from a show st: "search_with (faiss_search (index s)) s q k cid
      = Inr (collect_results s cid (take (nat k) (ranked (index s) q)))"
    by (simp add: search_body_ranked)
  then show "search_with (faiss_search (index s)) s q k cid = Inr (search s q k cid)" by (simp add: search_def)
  from st have "search s q k cid = collect_results s cid (take (nat k) (ranked (index s) q))"
    by (simp add: search_def)
  then show "length (search s q k cid) \<le> min (nat k) (ntotal (index s))"
    using length_collect_results [of s cid "take (nat k) (ranked (index s) q)"]
    by (simp add: length_ranked min.commute)
next
  assume "ntotal (index s) \<noteq> 0 \<and> length q = d (index s) \<and> 0 < k" "\<not> truthy cid"
  then show "length (search s q k cid) = min (nat k) (ntotal (index s))"
    by (simp add: length_search_unfiltered)
qed

theorem search_clamps_k_witness:
  "search_with (bounded_store (index empty_state_2d)) empty_state_2d [1, 2] 5 None = Inr []
   \<and> search_with (faiss_search (index empty_state_2d)) empty_state_2d [1, 2] 5 None = Inr []
   \<and> search empty_state_2d [1, 2] 5 None = []
   \<and> bounded_store (index two_candidates) [0] 7
       = Inl (RuntimeError ''more neighbours asked than stored'')
   \<and> search_with (bounded_store (index two_candidates)) two_candidates [0] 7 None
       = search_with (faiss_search (index two_candidates)) two_candidates [0] 7 None
   \<and> faiss_search (index two_candidates) [0] (min 7 (int (ntotal (index two_candidates))))
       = Inr [(0, 0), (1, 1)]
   \<and> search_with (faiss_search (index two_candidates)) two_candidates [0] 7 None = Inr (search two_candidates [0] 7 None)
   \<and> search two_candidates [0] 7 None = [near_result 0, 
          \<lparr>vector_id = 1, distance = 1, res_metadata = sample_metadata ''B''\<rparr>]
   \<and> length (search two_candidates [0] 7 None) = min (nat 7) (ntotal (index two_candidates))"
proof -
  have e: "ntotal (index empty_state_2d) = 0" by code_simp
  have pre: "ntotal (index two_candidates) \<noteq> 0
      \<and> length [0::real] = d (index two_candidates) \<and> (0::int) < 7"
    by code_simp
  have nt: "\<not> truthy None" by code_simp
  have r: "take (nat 7) (ranked (index two_candidates) [0]) = [(0, 0), (1, 1)]" by code_simp
  have bs: "bounded_store (index two_candidates) [0] 7
       = Inl (RuntimeError ''more neighbours asked than stored'')" by code_simp
  have ev: "search two_candidates [0] 7 None = [near_result 0, 
          \<lparr>vector_id = 1, distance = 1, res_metadata = sample_metadata ''B''\<rparr>]" by code_simp
  have ag: "\<forall>q' k'. k' \<le> int (ntotal (index two_candidates)) \<longrightarrow>
      bounded_store (index two_candidates) q' k' = faiss_search (index two_candidates) q' k'"
    by (simp add: bounded_store_def)
  from search_clamps_k [of empty_state_2d "bounded_store (index empty_state_2d)" "[1, 2]" 5 None] e
  have a: "search_with (bounded_store (index empty_state_2d)) empty_state_2d [1, 2] 5 None = Inr []
   \<and> search_with (faiss_search (index empty_state_2d)) empty_state_2d [1, 2] 5 None = Inr []
   \<and> search empty_state_2d [1, 2] 5 None = []"
    by blast
  note t = search_clamps_k [of two_candidates "bounded_store (index two_candidates)" "[0]" 7 None]
  from t ag have b: "search_with (bounded_store (index two_candidates)) two_candidates [0] 7 None
       = search_with (faiss_search (index two_candidates)) two_candidates [0] 7 None"
    by blast
  from t pre nt have c: "faiss_search (index two_candidates) [0] (min 7 (int (ntotal (index two_candidates))))
          = Inr (take (nat 7) (ranked (index two_candidates) [0]))
     \<and> search_with (faiss_search (index two_candidates)) two_candidates [0] 7 None = Inr (search two_candidates [0] 7 None)
     \<and> length (search two_candidates [0] 7 None) = min (nat 7) (ntotal (index two_candidates))"
    by blast
  from a bs b c ev show ?thesis by (simp only: r) 
qed


section \<open>Loading\<close>

text \<open>
  Claim C3, as the code has it. When the index file or the metadata file is unreadable,
  the handler of \<open>_load_or_create_index\<close> installs a fresh empty index (dimension 1536,
  no metadata, next id 0) and raises nothing. When the index file does not exist, the
  index is a new empty one of dimension 1536; when neither file exists the whole state
  is the fresh one.
\<close>

theorem load_falls_back_to_fresh:
  "(index_file = Corrupt \<or> metadata_file = Corrupt \<longrightarrow>
      load_or_create_index to_int index_file metadata_file = fresh_state)
   \<and> (index_file = Missing \<longrightarrow>
      index (load_or_create_index to_int index_file metadata_file) = IndexFlatL2 1536)
   \<and> load_or_create_index to_int Missing Missing = fresh_state
   \<and> d (index fresh_state) = 1536 \<and> ntotal (index fresh_state) = 0
   \<and> metadata fresh_state = [] \<and> next_id fresh_state = 0"
  by (auto simp: load_or_create_index_def load_try_def fresh_state_def IndexFlatL2_def ntotal_def
      split: disk_file.splits sum.splits)

theorem load_falls_back_to_fresh_witness:
  "load_or_create_index decimal_key Corrupt (Stored (metadata two_candidates)) = fresh_state
   \<and> index (load_or_create_index decimal_key Missing (Stored (metadata two_candidates)))
       = IndexFlatL2 1536
   \<and> next_id (load_or_create_index decimal_key Missing (Stored (metadata two_candidates))) = 2"
proof -
  have n: "next_id (load_or_create_index decimal_key Missing (Stored (metadata two_candidates))) = 2"
    by code_simp
  from load_falls_back_to_fresh [of Corrupt "Stored (metadata two_candidates)" decimal_key]
    load_falls_back_to_fresh [of Missing "Stored (metadata two_candidates)" decimal_key] n
  show ?thesis by blast
qed

text \<open>
  Against claim C3: with two vectors in a readable index file and an unreadable metadata
  file, loading returns the fresh empty state, so the stored vectors are gone and no
  error reaches the caller; likewise for an unreadable index file.
\<close>

theorem load_discards_counterexample:
  "load_or_create_index decimal_key (Stored (index two_candidates)) Corrupt = fresh_state
   \<and> ntotal (index two_candidates) = 2
   \<and> ntotal (index (load_or_create_index decimal_key (Stored (index two_candidates)) Corrupt)) = 0
   \<and> load_or_create_index decimal_key Corrupt (Stored (metadata two_candidates)) = fresh_state"
  by code_simp

section \<open>Confidence\<close>

text \<open>
  Claim C9. \<open>_evaluate_confidence\<close> maps the empty result list to \<open>low\<close>, and a
  non-empty one by its mean distance: below 1 to \<open>high\<close>, from 1 (included) to below 2
  to \<open>medium\<close>, from 2 on to \<open>low\<close>.
\<close>

theorem evaluate_confidence_bands:
  "evaluate_confidence [] = ''low''
   \<and> (results \<noteq> [] \<longrightarrow>
        (mean_distance results < 1 \<longrightarrow> evaluate_confidence results = ''high'')
      \<and> (1 \<le> mean_distance results \<and> mean_distance results < 2 \<longrightarrow>
           evaluate_confidence results = ''medium'')
      \<and> (2 \<le> mean_distance results \<longrightarrow> evaluate_confidence results = ''low''))"
  by (simp add: evaluate_confidence_def)

theorem evaluate_confidence_bands_witness:
  "mean_distance [near_result (1 / 2), near_result (3 / 2)] = 1
   \<and> evaluate_confidence [near_result (1 / 2), near_result (3 / 2)] = ''medium''
   \<and> evaluate_confidence [near_result (99 / 100)] = ''high''
   \<and> evaluate_confidence [near_result (101 / 100)] = ''medium''
   \<and> evaluate_confidence [near_result 2, near_result 2] = ''low''
   \<and> evaluate_confidence [near_result (201 / 100)] = ''low''"
proof -
  have m1: "mean_distance [near_result (1 / 2), near_result (3 / 2)] = 1"
    by (simp add: mean_distance_def near_result_def)
  have m2: "mean_distance [near_result (99 / 100)] < 1"
    by (simp add: mean_distance_def near_result_def)
  have m3: "1 \<le> mean_distance [near_result (101 / 100)] \<and> mean_distance [near_result (101 / 100)] < 2"
    by (simp add: mean_distance_def near_result_def)
  have m4: "2 \<le> mean_distance [near_result 2, near_result 2]"
    by (simp add: mean_distance_def near_result_def)
  have m5: "2 \<le> mean_distance [near_result (201 / 100)]"
    by (simp add: mean_distance_def near_result_def)
  from m1 have m1': "1 \<le> mean_distance [near_result (1 / 2), near_result (3 / 2)]
      \<and> mean_distance [near_result (1 / 2), near_result (3 / 2)] < 2" by simp
  from evaluate_confidence_bands [of "[near_result (1 / 2), near_result (3 / 2)]"] m1'
  have a: "evaluate_confidence [near_result (1 / 2), near_result (3 / 2)] = ''medium''" by blast
  from evaluate_confidence_bands [of "[near_result (99 / 100)]"] m2
  have b: "evaluate_confidence [near_result (99 / 100)] = ''high''" by blast
  from evaluate_confidence_bands [of "[near_result (101 / 100)]"] m3
  have c: "evaluate_confidence [near_result (101 / 100)] = ''medium''" by blast
  from evaluate_confidence_bands [of "[near_result 2, near_result 2]"] m4
  have d1: "evaluate_confidence [near_result 2, near_result 2] = ''low''" by blast
  from evaluate_confidence_bands [of "[near_result (201 / 100)]"] m5
  have e: "evaluate_confidence [near_result (201 / 100)] = ''low''" by blast
  from m1 a b c d1 e show ?thesis by blast
qed



section \<open>Answering a question\<close>

lemma answer_question_after_retrieval:
  assumes "embed svc question = Inr qe"
    and "retrieve s qe top_k cid \<noteq> []"
    and "format_context svc (slice_to top_k (retrieve s qe top_k cid)) = Inr ctx"
    and "extract_sources svc (slice_to top_k (retrieve s qe top_k cid)) = Inr srcs"
  shows "answer_question svc s question cid top_k =
           \<lparr>answer = generate_answer svc question ctx,
            context_of = ContextText ctx,
            sources = srcs,
            confidence = evaluate_confidence (slice_to top_k (retrieve s qe top_k cid))\<rparr>"
  using assms by (simp add: answer_question_def answer_question_try_def)

lemma evaluate_confidence_labels:
  "evaluate_confidence results \<in> {''high'', ''medium'', ''low''}"
  by (simp add: evaluate_confidence_def)

text \<open>
  Claim C6, as the code has it. When the embedding succeeds, retrieval finds something,
  the context and the sources are built, and the chat call then fails,
  \<open>answer_question\<close> returns (it does not raise) the fixed message
  \<open>Unable to generate answer due to an error.\<close> as the answer, together with the context
  and the sources built from the retrieved results and the confidence computed from
  their distances, which is never \<open>error\<close>.
\<close>

theorem generation_failure_keeps_context:
  assumes "embed svc question = Inr qe"
    and "retrieve s qe top_k cid \<noteq> []"
    and "format_context svc (slice_to top_k (retrieve s qe top_k cid)) = Inr ctx"
    and "extract_sources svc (slice_to top_k (retrieve s qe top_k cid)) = Inr srcs"
    and "chat_completions_create svc (build_prompt question ctx) = Inl e"
  shows "answer_question svc s question cid top_k =
           \<lparr>answer = ''Unable to generate answer due to an error.'',
            context_of = ContextText ctx,
            sources = srcs,
            confidence = evaluate_confidence (slice_to top_k (retrieve s qe top_k cid))\<rparr>
         \<and> confidence (answer_question svc s question cid top_k) \<noteq> ''error''"
proof -
  have g: "generate_answer svc question ctx = ''Unable to generate answer due to an error.''"
    using assms(5) by (simp add: generate_answer_def)
  have eq: "answer_question svc s question cid top_k =
           \<lparr>answer = ''Unable to generate answer due to an error.'',
            context_of = ContextText ctx,
            sources = srcs,
            confidence = evaluate_confidence (slice_to top_k (retrieve s qe top_k cid))\<rparr>"
    using answer_question_after_retrieval [OF assms(1-4)] by (simp only: g)
  have "evaluate_confidence (slice_to top_k (retrieve s qe top_k cid)) \<noteq> ''error''"
    using evaluate_confidence_labels [of "slice_to top_k (retrieve s qe top_k cid)"] by auto
  with eq show ?thesis by simp
qed

theorem generation_failure_keeps_context_witness:
  "answer_question failing_generation two_candidates ''Who knows Python?'' None 1 =
       \<lparr>answer = ''Unable to generate answer due to an error.'',
        context_of = ContextText alice_context,
        sources = [alice_source],
        confidence = evaluate_confidence
                       (slice_to 1 (retrieve two_candidates [0] 1 None))\<rparr>
   \<and> confidence (answer_question failing_generation two_candidates ''Who knows Python?'' None 1)
       \<noteq> ''error''"
proof -
  have h1: "embed failing_generation ''Who knows Python?'' = Inr [0]" by code_simp
  have h2: "retrieve two_candidates [0] 1 None \<noteq> []" by code_simp
  have h3: "format_context failing_generation (slice_to 1 (retrieve two_candidates [0] 1 None))
      = Inr alice_context" by code_simp
  have h4: "extract_sources failing_generation (slice_to 1 (retrieve two_candidates [0] 1 None))
      = Inr [alice_source]" by code_simp
  have h5: "chat_completions_create failing_generation
      (build_prompt ''Who knows Python?'' alice_context) = Inl (APIError ''Connection error.'')"
    by code_simp
  show ?thesis by (rule generation_failure_keeps_context [OF h1 h2 h3 h4 h5])
qed

text \<open>
  Against claim C6: with a failing chat endpoint the payload for a question over
  \<open>two_candidates\<close> carries Alice's excerpt as context, her source entry, and confidence
  \<open>high\<close>; neither is the context empty nor the confidence \<open>error\<close>.
\<close>

theorem generation_failure_counterexample:
  "generate_answer failing_generation ''Who knows Python?'' alice_context
     = ''Unable to generate answer due to an error.''
   \<and> answer_question failing_generation two_candidates ''Who knows Python?'' None 1 =
       \<lparr>answer = ''Unable to generate answer due to an error.'',
        context_of = ContextText alice_context,
        sources = [alice_source],
        confidence = ''high''\<rparr>"
  by code_simp

text \<open>
  Claim C7, as the code has it. When \<open>embed\<close> raises, the body of \<open>answer_question\<close>
  raises the same exception at once (no second call), and the handler of
  \<open>answer_question\<close> turns it into a payload: the answer
  \<open>Error processing question: \<close> followed by the exception's message, the empty list as
  context, no sources, confidence \<open>error\<close>. Nothing is raised to the caller.
\<close>

theorem embedding_failure_downgraded:
  assumes "embed svc question = Inl e"
  shows "answer_question_try svc s question cid top_k = Inl e
         \<and> answer_question svc s question cid top_k =
             \<lparr>answer = ''Error processing question: '' @ exn_str e,
              context_of = EmptyList, sources = [], confidence = ''error''\<rparr>"
  using assms by (simp add: answer_question_def answer_question_try_def)

theorem embedding_failure_downgraded_witness:
  "answer_question_try failing_embedding two_candidates ''Who knows Python?'' (Some ''A'') 10
     = Inl (APIError ''Connection error.'')
   \<and> answer_question failing_embedding two_candidates ''Who knows Python?'' (Some ''A'') 10 =
       \<lparr>answer = ''Error processing question: '' @ exn_str (APIError ''Connection error.''),
        context_of = EmptyList, sources = [], confidence = ''error''\<rparr>"
proof -
  have h: "embed failing_embedding ''Who knows Python?'' = Inl (APIError ''Connection error.'')"
    by code_simp
  show ?thesis by (rule embedding_failure_downgraded [OF h])
qed

text \<open>
  Against claim C7: with an embeddings endpoint that raises, \<open>answer_question\<close> returns
  the in-band error payload.
\<close>

theorem embedding_failure_counterexample:
  "embed failing_embedding ''Who knows Python?'' = Inl (APIError ''Connection error.'')
   \<and> answer_question failing_embedding two_candidates ''Who knows Python?'' None 10 =
       \<lparr>answer = ''Error processing question: Connection error.'',
        context_of = EmptyList, sources = [], confidence = ''error''\<rparr>"
  by code_simp

lemma search_untruthy: "\<not> truthy cid \<Longrightarrow> search s q k cid = search s q k None"
  by (simp add: search_ranked matches_def truthy_def)

lemma search_empty_index: "ntotal (index s) = 0 \<Longrightarrow> search s q k cid = []"
  by (simp add: search_ranked)

lemma retrieve_unscoped:
  "search s q (max top_k 15) cid = [] \<Longrightarrow> retrieve s q top_k cid = search s q (max top_k 15) None"
  using search_untruthy [of cid s q "max top_k 15"] by (auto simp: retrieve_def Let_def)

lemma retrieve_None: "retrieve s q top_k None = search s q (max top_k 15) None"
  by (simp add: retrieve_def truthy_def)

lemma answer_question_retrieve:
  "retrieve s q top_k cid = retrieve s q top_k cid' \<Longrightarrow> embed svc question = Inr q \<Longrightarrow>
     answer_question svc s question cid top_k = answer_question svc s question cid' top_k"
  by (simp add: answer_question_def answer_question_try_def)

lemma answer_question_from_results:
  assumes "embed svc question = Inr qe"
  shows "answer_question svc s question cid top_k =
     (if retrieve s qe top_k cid = [] then
        \<lparr>answer = ''No relevant information found in the CV database.'',
         context_of = EmptyList, sources = [], confidence = ''low''\<rparr>
      else
        (case format_context svc (slice_to top_k (retrieve s qe top_k cid)) of
           Inl e \<Rightarrow>
             \<lparr>answer = ''Error processing question: '' @ exn_str e,
              context_of = EmptyList, sources = [], confidence = ''error''\<rparr>
         | Inr ctx \<Rightarrow>
             (case extract_sources svc (slice_to top_k (retrieve s qe top_k cid)) of
                Inl e \<Rightarrow>
                  \<lparr>answer = ''Error processing question: '' @ exn_str e,
                   context_of = EmptyList, sources = [], confidence = ''error''\<rparr>
              | Inr srcs \<Rightarrow>
                  \<lparr>answer = generate_answer svc question ctx,
                   context_of = ContextText ctx,
                   sources = srcs,
                   confidence =
                     evaluate_confidence (slice_to top_k (retrieve s qe top_k cid))\<rparr>)))"
  using assms
  by (simp add: answer_question_def answer_question_try_def no_information_def
      split: sum.splits)

text \<open>
  Claim C8. Once the question is embedded: when the search with the candidate id finds
  nothing, the results used are those of the search without it, the answer is the one
  given without a candidate id, and it is the payload built from the results of that
  second search (its context, sources and confidence, or the error payload when building
  them raises); when that search finds nothing either, in particular on an index holding
  no vector, the payload is the \<open>No relevant information\<close> message with the empty list as
  context, no sources and confidence \<open>low\<close>.
\<close>

theorem scoped_fallback_then_no_information:
  assumes "embed svc question = Inr qe"
  shows "(search s qe (max top_k 15) cid = [] \<longrightarrow>
            retrieve s qe top_k cid = search s qe (max top_k 15) None
          \<and> answer_question svc s question cid top_k = answer_question svc s question None top_k
          \<and> answer_question svc s question cid top_k =
              (if search s qe (max top_k 15) None = [] then
                 \<lparr>answer = ''No relevant information found in the CV database.'',
                  context_of = EmptyList, sources = [], confidence = ''low''\<rparr>
               else
                 (case format_context svc (slice_to top_k (search s qe (max top_k 15) None)) of
                    Inl e \<Rightarrow>
                      \<lparr>answer = ''Error processing question: '' @ exn_str e,
                       context_of = EmptyList, sources = [], confidence = ''error''\<rparr>
                  | Inr ctx \<Rightarrow>
                      (case extract_sources svc
                              (slice_to top_k (search s qe (max top_k 15) None)) of
                         Inl e \<Rightarrow>
                           \<lparr>answer = ''Error processing question: '' @ exn_str e,
                            context_of = EmptyList, sources = [], confidence = ''error''\<rparr>
                       | Inr srcs \<Rightarrow>
                           \<lparr>answer = generate_answer svc question ctx,
                            context_of = ContextText ctx,
                            sources = srcs,
                            confidence =
                              evaluate_confidence
                                (slice_to top_k (search s qe (max top_k 15) None))\<rparr>))))
       \<and> (search s qe (max top_k 15) cid = [] \<and> search s qe (max top_k 15) None = [] \<longrightarrow>
            answer_question svc s question cid top_k =
              \<lparr>answer = ''No relevant information found in the CV database.'',
               context_of = EmptyList, sources = [], confidence = ''low''\<rparr>)
       \<and> (ntotal (index s) = 0 \<longrightarrow>
            answer_question svc s question cid top_k =
              \<lparr>answer = ''No relevant information found in the CV database.'',
               context_of = EmptyList, sources = [], confidence = ''low''\<rparr>)"
proof (intro conjI impI)
  assume a: "search s qe (max top_k 15) cid = []"
  then show r: "retrieve s qe top_k cid = search s qe (max top_k 15) None"
    by (rule retrieve_unscoped)
  then have "retrieve s qe top_k cid = retrieve s qe top_k None"
    by (simp add: retrieve_None)
  then show "answer_question svc s question cid top_k = answer_question svc s question None top_k"
    using assms by (rule answer_question_retrieve)
  show "answer_question svc s question cid top_k =
              (if search s qe (max top_k 15) None = [] then
                 \<lparr>answer = ''No relevant information found in the CV database.'',
                  context_of = EmptyList, sources = [], confidence = ''low''\<rparr>
               else
                 (case format_context svc (slice_to top_k (search s qe (max top_k 15) None)) of
                    Inl e \<Rightarrow>
                      \<lparr>answer = ''Error processing question: '' @ exn_str e,
                       context_of = EmptyList, sources = [], confidence = ''error''\<rparr>
                  | Inr ctx \<Rightarrow>
                      (case extract_sources svc
                              (slice_to top_k (search s qe (max top_k 15) None)) of
                         Inl e \<Rightarrow>
                           \<lparr>answer = ''Error processing question: '' @ exn_str e,
                            context_of = EmptyList, sources = [], confidence = ''error''\<rparr>
                       | Inr srcs \<Rightarrow>
                           \<lparr>answer = generate_answer svc question ctx,
                            context_of = ContextText ctx,
                            sources = srcs,
                            confidence =
                              evaluate_confidence
                                (slice_to top_k (search s qe (max top_k 15) None))\<rparr>)))"
    using answer_question_from_results [OF assms, of s cid top_k] by (simp only: r)
next
  assume a: "search s qe (max top_k 15) cid = [] \<and> search s qe (max top_k 15) None = []"
  then have "retrieve s qe top_k cid = []"
    by (simp add: retrieve_unscoped)
  with assms show "answer_question svc s question cid top_k =
              \<lparr>answer = ''No relevant information found in the CV database.'',
               context_of = EmptyList, sources = [], confidence = ''low''\<rparr>"
    by (simp add: answer_question_def answer_question_try_def no_information_def)
next
  assume "ntotal (index s) = 0"
  then have "retrieve s qe top_k cid = []"
    by (simp add: retrieve_def search_empty_index)
  with assms show "answer_question svc s question cid top_k =
              \<lparr>answer = ''No relevant information found in the CV database.'',
               context_of = EmptyList, sources = [], confidence = ''low''\<rparr>"
    by (simp add: answer_question_def answer_question_try_def no_information_def)
qed

theorem scoped_fallback_then_no_information_witness:
  "search two_candidates [0] (max 5 15) (Some ''C'') = []
   \<and> retrieve two_candidates [0] 5 (Some ''C'') = search two_candidates [0] (max 5 15) None
   \<and> answer_question sample_services two_candidates ''Who knows Python?'' (Some ''C'') 5
       = answer_question sample_services two_candidates ''Who knows Python?'' None 5
   \<and> answer_question sample_services two_candidates ''Who knows Python?'' (Some ''C'') 5 =
       \<lparr>answer = ''Alice is a Python developer.'',
        context_of = ContextText both_context,
        sources = [alice_source, bob_source],
        confidence = ''high''\<rparr>
   \<and> answer_question sample_services empty_state_2d ''Who knows Python?'' (Some ''A'') 5 =
       \<lparr>answer = ''No relevant information found in the CV database.'',
        context_of = EmptyList, sources = [], confidence = ''low''\<rparr>"
proof -
  have h: "embed sample_services ''Who knows Python?'' = Inr [0]" by code_simp
  have a: "search two_candidates [0] (max 5 15) (Some ''C'') = []" by code_simp
  have b: "ntotal (index empty_state_2d) = 0" by code_simp
  note t = scoped_fallback_then_no_information [OF h, of two_candidates 5 "Some ''C''"]
  from t a
  have c: "retrieve two_candidates [0] 5 (Some ''C'') = search two_candidates [0] (max 5 15) None
   \<and> answer_question sample_services two_candidates ''Who knows Python?'' (Some ''C'') 5
       = answer_question sample_services two_candidates ''Who knows Python?'' None 5"
    by blast
  from t a
  have "answer_question sample_services two_candidates ''Who knows Python?'' (Some ''C'') 5 =
      (if search two_candidates [0] (max 5 15) None = [] then
         \<lparr>answer = ''No relevant information found in the CV database.'',
          context_of = EmptyList, sources = [], confidence = ''low''\<rparr>
       else
         (case format_context sample_services
                 (slice_to 5 (search two_candidates [0] (max 5 15) None)) of
            Inl e \<Rightarrow>
              \<lparr>answer = ''Error processing question: '' @ exn_str e,
               context_of = EmptyList, sources = [], confidence = ''error''\<rparr>
          | Inr ctx \<Rightarrow>
              (case extract_sources sample_services
                      (slice_to 5 (search two_candidates [0] (max 5 15) None)) of
                 Inl e \<Rightarrow>
                   \<lparr>answer = ''Error processing question: '' @ exn_str e,
                    context_of = EmptyList, sources = [], confidence = ''error''\<rparr>
               | Inr srcs \<Rightarrow>
                   \<lparr>answer = generate_answer sample_services ''Who knows Python?'' ctx,
                    context_of = ContextText ctx,
                    sources = srcs,
                    confidence =
                      evaluate_confidence
                        (slice_to 5 (search two_candidates [0] (max 5 15) None))\<rparr>)))"
    (is "_ = ?rhs")
    by blast
  also have "?rhs =
       \<lparr>answer = ''Alice is a Python developer.'',
        context_of = ContextText both_context,
        sources = [alice_source, bob_source],
        confidence = ''high''\<rparr>"
    by code_simp
  finally have d1: "answer_question sample_services two_candidates ''Who knows Python?'' (Some ''C'') 5 =
       \<lparr>answer = ''Alice is a Python developer.'',
        context_of = ContextText both_context,
        sources = [alice_source, bob_source],
        confidence = ''high''\<rparr>" .
  from scoped_fallback_then_no_information [OF h, of empty_state_2d 5 "Some ''A''"] b
  have "answer_question sample_services empty_state_2d ''Who knows Python?'' (Some ''A'') 5 =
       \<lparr>answer = ''No relevant information found in the CV database.'',
        context_of = EmptyList, sources = [], confidence = ''low''\<rparr>"
    by blast
  with a c d1 show ?thesis by blast
qed


end
